theory Spec2Isabelle
  imports Main "HOL-Library.Sublist"
begin

section \<open>Shell command generation of mara\_db (shell.py)\<close>

text \<open>
  The module builds shell command strings for the command line clients psql, mysql,
  sqsh and sqlite3. Every function of it is a string computation that dispatches on
  the class of its database argument. The embedding keeps the four function families
  \<open>query_command\<close>, \<open>copy_to_stdout_command\<close>, \<open>copy_from_stdin_command\<close> and
  \<open>copy_command\<close>, with an exception of the source as the left summand of the result.
\<close>

subsection \<open>Python strings and values\<close>

text \<open>Characters that a string literal of the logic cannot hold directly.\<close>

abbreviation BS :: char where "BS \<equiv> CHR 0x5C"
abbreviation NL :: char where "NL \<equiv> CHR 0x0A"
abbreviation TAB :: char where "TAB \<equiv> CHR 0x09"
abbreviation SQ :: char where "SQ \<equiv> CHR 0x27"
abbreviation DQ :: char where "DQ \<equiv> CHR 0x22"

text \<open>
  Truth value of an optional string, as in \<^verbatim>\<open>x if db.user else y\<close>: \<^verbatim>\<open>None\<close> and the
  empty string are false.
\<close>

definition truthy :: "string option \<Rightarrow> bool" where
  "truthy v = (case v of None \<Rightarrow> False | Some s \<Rightarrow> s \<noteq> [])"

text \<open>Truth value of an optional integer: \<^verbatim>\<open>None\<close> and \<open>0\<close> are false.\<close>

definition truthy_int :: "int option \<Rightarrow> bool" where
  "truthy_int v = (case v of None \<Rightarrow> False | Some i \<Rightarrow> i \<noteq> 0)"

text \<open>\<^verbatim>\<open>str(i)\<close> of an integer, which is how an f-string renders it.\<close>

definition digit_char :: "nat \<Rightarrow> char" where
  "digit_char d = char_of (48 + d)"

fun str_nat :: "nat \<Rightarrow> string" where
  "str_nat n = (if n < 10 then [digit_char n] else str_nat (n div 10) @ [digit_char (n mod 10)])"

declare str_nat.simps [simp del]

definition str_int :: "int \<Rightarrow> string" where
  "str_int i = (if i < 0 then CHR ''-'' # str_nat (nat (- i)) else str_nat (nat i))"

text \<open>The f-string rendering of a field that the source has just tested to be true.\<close>

definition fmt :: "string option \<Rightarrow> string" where
  "fmt v = (case v of None \<Rightarrow> ''None'' | Some s \<Rightarrow> s)"

definition fmt_int :: "int option \<Rightarrow> string" where
  "fmt_int v = (case v of None \<Rightarrow> ''None'' | Some i \<Rightarrow> str_int i)"

subsection \<open>shlex.quote\<close>

text \<open>
  The standard library's \<^verbatim>\<open>shlex.quote\<close>: the empty string becomes \<^verbatim>\<open>''\<close>, a string of
  characters of \<^verbatim>\<open>[A-Za-z0-9_@%+=:,./-]\<close> only is returned as it is, and any other string is
  put in single quotes, each single quote of it replaced by \<^verbatim>\<open>'"'"'\<close>.
\<close>

definition safe_char :: "char \<Rightarrow> bool" where
  "safe_char c =
     (c \<in> set ''abcdefghijklmnopqrstuvwxyzABCDEFGHIJKLMNOPQRSTUVWXYZ0123456789_@%+=:,./-'')"

definition replace_quote :: "string \<Rightarrow> string" where
  "replace_quote s = concat (map (\<lambda>c. if c = SQ then [SQ, DQ, SQ, DQ, SQ] else [c]) s)"

definition shlex_quote :: "string \<Rightarrow> string" where
  "shlex_quote s =
     (if s = [] then [SQ, SQ]
      else if list_all safe_char s then s
      else SQ # replace_quote s @ [SQ])"

subsection \<open>Database descriptors and configuration\<close>

text \<open>
  Modelled from the spec: the descriptor classes of the module \<^verbatim>\<open>dbs\<close> (their declarations
  are not part of shell.py). A descriptor is one of the four variants PostgreSQL, MySQL,
  SQLServer and SQLite, each with the attributes that shell.py reads; an attribute that
  was not given is \<^verbatim>\<open>None\<close>. The SSL flag is a boolean, false when it was not given, and the
  SQLite file name is the text that \<^verbatim>\<open>str(db.file_name)\<close> yields.
\<close>

record PostgreSQLDB =
  pg_host :: "string option"
  pg_port :: "int option"
  pg_database :: "string option"
  pg_user :: "string option"
  pg_password :: "string option"

record MysqlDB =
  my_host :: "string option"
  my_port :: "int option"
  my_database :: "string option"
  my_user :: "string option"
  my_password :: "string option"
  my_ssl :: bool

record SQLServerDB =
  ms_host :: "string option"
  ms_database :: "string option"
  ms_user :: "string option"
  ms_password :: "string option"

record SQLiteDB =
  file_name :: string

datatype db =
    PostgreSQL PostgreSQLDB
  | Mysql MysqlDB
  | SQLServer SQLServerDB
  | SQLite SQLiteDB

text \<open>
  The database argument of a builder is any Python object: a string (an alias), a
  descriptor, or an object of some other class, of which only the class name matters.
\<close>

datatype pyobj = Str string | DB db | Obj string

fun class_name :: "pyobj \<Rightarrow> string" where
  "class_name (Str _) = ''str''"
| "class_name (DB (PostgreSQL _)) = ''PostgreSQLDB''"
| "class_name (DB (Mysql _)) = ''MysqlDB''"
| "class_name (DB (SQLServer _)) = ''SQLServerDB''"
| "class_name (DB (SQLite _)) = ''SQLiteDB''"
| "class_name (Obj c) = c"

datatype error = NotImplementedError string | AliasNotFound string

text \<open>
  Modelled from the spec: the configuration collaborator (the modules \<^verbatim>\<open>config\<close> and \<^verbatim>\<open>dbs\<close>,
  not part of shell.py), a registry from aliases to descriptors and a process-wide default
  timezone. \<^verbatim>\<open>dbs.db(alias)\<close> returns the descriptor of the alias and raises when the alias does
  not resolve.
\<close>

record config =
  databases :: "string \<Rightarrow> db option"
  default_timezone :: string

definition dbs_db :: "config \<Rightarrow> string \<Rightarrow> error + db" where
  "dbs_db cfg alias =
     (case databases cfg alias of None \<Rightarrow> Inl (AliasNotFound alias) | Some d \<Rightarrow> Inr d)"

text \<open>Sequencing of calls that may raise: the first exception is the result.\<close>

definition and_then :: "error + 'a \<Rightarrow> ('a \<Rightarrow> error + 'b) \<Rightarrow> error + 'b" where
  "and_then r f = (case r of Inl e \<Rightarrow> Inl e | Inr v \<Rightarrow> f v)"

subsection \<open>query\_command\<close>

definition query_command_PostgreSQLDB ::
  "config \<Rightarrow> PostgreSQLDB \<Rightarrow> string option \<Rightarrow> bool \<Rightarrow> string" where
  "query_command_PostgreSQLDB cfg db timezone echo_queries =
     ''PGTZ='' @ (if truthy timezone then fmt timezone else default_timezone cfg) @ '' ''
     @ (if truthy (pg_password db) then ''PGPASSWORD='' @ fmt (pg_password db) @ '' '' else [])
     @ ''PGOPTIONS=--client-min-messages=warning psql''
     @ (if truthy (pg_user db) then '' --username='' @ fmt (pg_user db) else [])
     @ (if truthy (pg_host db) then '' --host='' @ fmt (pg_host db) else [])
     @ (if truthy_int (pg_port db) then '' --port='' @ fmt_int (pg_port db) else [])
     @ (if echo_queries then '' --echo-all'' else '' '')
     @ '' --no-psqlrc --set ON_ERROR_STOP=on ''
     @ (if truthy (pg_database db) then fmt (pg_database db) else [])"

definition query_command_MysqlDB :: "MysqlDB \<Rightarrow> string option \<Rightarrow> bool \<Rightarrow> string" where
  "query_command_MysqlDB db timezone echo_queries =
     (if truthy (my_password db) then ''MYSQL_PWD='' @ SQ # fmt (my_password db) @ SQ # '' '' else [])
     @ ''mysql ''
     @ (if truthy (my_user db) then '' --user='' @ fmt (my_user db) else [])
     @ (if truthy (my_host db) then '' --host='' @ fmt (my_host db) else [])
     @ (if truthy_int (my_port db) then '' --port='' @ fmt_int (my_port db) else [])
     @ (if my_ssl db then '' --ssl'' else [])
     @ (if truthy (my_database db) then '' '' @ fmt (my_database db) else [])"

definition query_command_SQLServerDB :: "SQLServerDB \<Rightarrow> string option \<Rightarrow> bool \<Rightarrow> string" where
  "query_command_SQLServerDB db timezone echo_queries =
     (let command = ''sed '' @ SQ # ''s/'' @ [BS, BS, BS, BS] @ ''$/'' @ BS # ''$/g;s/'' @ BS # ''$/''
                    @ [BS, BS, BS, BS] @ ''$/g'' @ SQ # '' | '';
          command = command @ ''(cat && echo ';') '' @ BS # NL # ''  | '';
          command = command @ ''(cat && echo ';'' @ NL # BS # ''go') '' @ BS # NL # ''  | ''
      in command @ ''sqsh ''
         @ (if truthy (ms_user db) then '' -U '' @ fmt (ms_user db) else [])
         @ (if truthy (ms_password db) then '' -P '' @ fmt (ms_password db) else [])
         @ (if truthy (ms_host db) then '' -S '' @ fmt (ms_host db) else [])
         @ (if truthy (ms_database db) then '' -D '' @ fmt (ms_database db) else []))"

definition query_command_SQLiteDB :: "SQLiteDB \<Rightarrow> string option \<Rightarrow> bool \<Rightarrow> string" where
  "query_command_SQLiteDB db timezone echo_queries =
     (let file_name' = shlex_quote (file_name db)
      in ''(test -f '' @ file_name' @ '' && cat || >&2 echo '' @ file_name' @ '' not found) ''
         @ BS # NL # ''  | sqlite3 -bail '' @ shlex_quote (file_name db))"

text \<open>
  The single dispatch on the class of the first argument: a string is resolved through
  \<open>dbs_db\<close> and dispatched again, a descriptor goes to the function registered for its class,
  anything else to the base function, which raises.
\<close>

function (sequential) query_command ::
  "config \<Rightarrow> pyobj \<Rightarrow> string option \<Rightarrow> bool \<Rightarrow> error + string" where
  "query_command cfg (Str alias) timezone echo_queries =
     and_then (dbs_db cfg alias) (\<lambda>d. query_command cfg (DB d) timezone echo_queries)"
| "query_command cfg (DB (PostgreSQL db)) timezone echo_queries =
     Inr (query_command_PostgreSQLDB cfg db timezone echo_queries)"
| "query_command cfg (DB (Mysql db)) timezone echo_queries =
     Inr (query_command_MysqlDB db timezone echo_queries)"
| "query_command cfg (DB (SQLServer db)) timezone echo_queries =
     Inr (query_command_SQLServerDB db timezone echo_queries)"
| "query_command cfg (DB (SQLite db)) timezone echo_queries =
     Inr (query_command_SQLiteDB db timezone echo_queries)"
| "query_command cfg (Obj c) timezone echo_queries =
     Inl (NotImplementedError (''Please implement query_command for type '' @ DQ # c @ [DQ]))"
  by pat_completeness auto
termination
  by (relation "measure (\<lambda>(cfg, a, tz, e). case a of Str _ \<Rightarrow> 1 | _ \<Rightarrow> 0)") auto

subsection \<open>copy\_to\_stdout\_command\<close>

definition copy_to_stdout_command_PostgreSQLDB :: "config \<Rightarrow> PostgreSQLDB \<Rightarrow> error + string" where
  "copy_to_stdout_command_PostgreSQLDB cfg db =
     and_then (query_command cfg (DB (PostgreSQL db)) None False) (\<lambda>q.
       Inr (q @ '' --tuples-only --no-align --field-separator='' @ SQ # TAB # SQ # '' '' @ BS # NL
              # ''  | sed '' @ SQ # ''/^$/d'' @ [SQ]))"

definition copy_to_stdout_command_MysqlDB :: "config \<Rightarrow> MysqlDB \<Rightarrow> error + string" where
  "copy_to_stdout_command_MysqlDB cfg db =
     and_then (query_command cfg (DB (Mysql db)) None True) (\<lambda>q.
       Inr (q @ '' --skip-column-names''))"

definition copy_to_stdout_command_SQLServerDB :: "config \<Rightarrow> SQLServerDB \<Rightarrow> error + string" where
  "copy_to_stdout_command_SQLServerDB cfg db =
     and_then (query_command cfg (DB (SQLServer db)) None True) (\<lambda>q.
       Inr (q @ '' -m csv''))"

definition copy_to_stdout_command_SQLiteDB :: "config \<Rightarrow> SQLiteDB \<Rightarrow> error + string" where
  "copy_to_stdout_command_SQLiteDB cfg db =
     and_then (query_command cfg (DB (SQLite db)) None True) (\<lambda>q.
       Inr (q @ '' -noheader -separator '' @ SQ # TAB # SQ # '' -quote''))"

function (sequential) copy_to_stdout_command :: "config \<Rightarrow> pyobj \<Rightarrow> error + string" where
  "copy_to_stdout_command cfg (Str alias) =
     and_then (dbs_db cfg alias) (\<lambda>d. copy_to_stdout_command cfg (DB d))"
| "copy_to_stdout_command cfg (DB (PostgreSQL db)) = copy_to_stdout_command_PostgreSQLDB cfg db"
| "copy_to_stdout_command cfg (DB (Mysql db)) = copy_to_stdout_command_MysqlDB cfg db"
| "copy_to_stdout_command cfg (DB (SQLServer db)) = copy_to_stdout_command_SQLServerDB cfg db"
| "copy_to_stdout_command cfg (DB (SQLite db)) = copy_to_stdout_command_SQLiteDB cfg db"
| "copy_to_stdout_command cfg (Obj c) =
     Inl (NotImplementedError
       (''Please implement function copy_to_stdout_command for type '' @ DQ # c @ [DQ]))"
  by pat_completeness auto
termination
  by (relation "measure (\<lambda>(cfg, a). case a of Str _ \<Rightarrow> 1 | _ \<Rightarrow> 0)") auto

subsection \<open>copy\_from\_stdin\_command\<close>

text \<open>
  The arguments keep the order of the source's signature: the database, the target table,
  \<open>csv_format\<close>, \<open>skip_header\<close>, \<open>delimiter_char\<close>, \<open>quote_char\<close>, \<open>null_value_string\<close> and
  the timezone. The statement is built by appending to \<open>sql\<close>, one test after the other.
\<close>

definition copy_from_stdin_command_PostgreSQLDB ::
  "config \<Rightarrow> PostgreSQLDB \<Rightarrow> string \<Rightarrow> bool \<Rightarrow> bool \<Rightarrow> string option \<Rightarrow> string option
     \<Rightarrow> string option \<Rightarrow> string option \<Rightarrow> error + string" where
  "copy_from_stdin_command_PostgreSQLDB cfg db target_table csv_format skip_header
       delimiter_char quote_char null_value_string timezone =
     (let sql = ''COPY '' @ target_table @ '' FROM STDIN WITH'';
          sql = (if csv_format then sql @ '' CSV'' else sql);
          sql = (if skip_header then sql @ '' HEADER'' else sql);
          sql = (if delimiter_char \<noteq> None
                 then sql @ '' DELIMITER AS '' @ SQ # fmt delimiter_char @ [SQ] else sql);
          sql = (if null_value_string \<noteq> None
                 then sql @ '' NULL AS '' @ SQ # fmt null_value_string @ [SQ] else sql);
          sql = (if quote_char \<noteq> None
                 then sql @ '' QUOTE AS '' @ SQ # fmt quote_char @ [SQ] else sql)
      in and_then (query_command cfg (DB (PostgreSQL db)) timezone True) (\<lambda>q.
           Inr (q @ '' '' @ BS # NL # ''      --command='' @ DQ # sql @ [DQ])))"

function (sequential) copy_from_stdin_command ::
  "config \<Rightarrow> pyobj \<Rightarrow> string \<Rightarrow> bool \<Rightarrow> bool \<Rightarrow> string option \<Rightarrow> string option
     \<Rightarrow> string option \<Rightarrow> string option \<Rightarrow> error + string" where
  "copy_from_stdin_command cfg (Str alias) target_table csv_format skip_header
       delimiter_char quote_char null_value_string timezone =
     and_then (dbs_db cfg alias) (\<lambda>d.
       copy_from_stdin_command cfg (DB d) target_table csv_format skip_header
         delimiter_char quote_char null_value_string timezone)"
| "copy_from_stdin_command cfg (DB (PostgreSQL db)) target_table csv_format skip_header
       delimiter_char quote_char null_value_string timezone =
     copy_from_stdin_command_PostgreSQLDB cfg db target_table csv_format skip_header
       delimiter_char quote_char null_value_string timezone"
| "copy_from_stdin_command cfg db target_table csv_format skip_header
       delimiter_char quote_char null_value_string timezone =
     Inl (NotImplementedError
       (''Please implement copy_from_stdin_command for type '' @ DQ # class_name db @ [DQ]))"
  by pat_completeness auto
termination
  by (relation "measure (\<lambda>(cfg, a, r). case a of Str _ \<Rightarrow> 1 | _ \<Rightarrow> 0)") auto

subsection \<open>copy\_command\<close>

definition pipe :: "error + string \<Rightarrow> error + string \<Rightarrow> error + string" where
  "pipe source target =
     and_then source (\<lambda>a. and_then target (\<lambda>b. Inr (a @ '' '' @ BS # NL # ''  | '' @ b)))"

text \<open>
  The multiple dispatch on the classes of the first two arguments. Registered are
  \<open>(str, str)\<close>, \<open>(DB, str)\<close> and the four pairs of a descriptor class with PostgreSQLDB;
  every other pair of classes goes to the base function, which raises.
\<close>

function (sequential) copy_command ::
  "config \<Rightarrow> pyobj \<Rightarrow> pyobj \<Rightarrow> string \<Rightarrow> string option \<Rightarrow> error + string" where
  "copy_command cfg (Str source_db_alias) (Str target_db_alias) target_table timezone =
     and_then (dbs_db cfg source_db_alias) (\<lambda>s.
       and_then (dbs_db cfg target_db_alias) (\<lambda>t.
         copy_command cfg (DB s) (DB t) target_table timezone))"
| "copy_command cfg (DB source_db) (Str target_db_alias) target_table timezone =
     and_then (dbs_db cfg target_db_alias) (\<lambda>t.
       copy_command cfg (DB source_db) (DB t) target_table timezone)"
| "copy_command cfg (DB (PostgreSQL source_db)) (DB (PostgreSQL target_db)) target_table timezone =
     pipe (copy_to_stdout_command cfg (DB (PostgreSQL source_db)))
          (copy_from_stdin_command cfg (DB (PostgreSQL target_db)) target_table False False
             None None (Some []) timezone)"
| "copy_command cfg (DB (Mysql source_db)) (DB (PostgreSQL target_db)) target_table timezone =
     pipe (copy_to_stdout_command cfg (DB (Mysql source_db)))
          (copy_from_stdin_command cfg (DB (PostgreSQL target_db)) target_table False False
             None None (Some ''NULL'') timezone)"
| "copy_command cfg (DB (SQLServer source_db)) (DB (PostgreSQL target_db)) target_table timezone =
     pipe (copy_to_stdout_command cfg (DB (SQLServer source_db)))
          (copy_from_stdin_command cfg (DB (PostgreSQL target_db)) target_table True True
             None None None timezone)"
| "copy_command cfg (DB (SQLite source_db)) (DB (PostgreSQL target_db)) target_table timezone =
     pipe (copy_to_stdout_command cfg (DB (SQLite source_db)))
          (copy_from_stdin_command cfg (DB (PostgreSQL target_db)) target_table True False
             None (Some [SQ, SQ]) (Some ''NULL'') timezone)"
| "copy_command cfg source_db target_db target_table timezone =
     Inl (NotImplementedError
       (''Please implement copy_command for types '' @ DQ # class_name source_db @ DQ
          # '' and '' @ DQ # class_name target_db @ [DQ]))"
  by pat_completeness auto
termination
  by (relation "measure (\<lambda>(cfg, s, t, r).
        (case s of Str _ \<Rightarrow> 1 | _ \<Rightarrow> 0) + (case t of Str _ \<Rightarrow> 1 | _ \<Rightarrow> 0))") auto

subsection \<open>An example configuration\<close>

text \<open>
  Two PostgreSQL descriptors and a registry that holds them under the aliases \<^verbatim>\<open>source\<close>
  and \<^verbatim>\<open>target\<close>, for the concrete evaluations below.
\<close>

definition example_source :: PostgreSQLDB where
  "example_source = \<lparr>pg_host = Some ''localhost'', pg_port = None, pg_database = Some ''source'',
                      pg_user = None, pg_password = None\<rparr>"

definition example_target :: PostgreSQLDB where
  "example_target = \<lparr>pg_host = Some ''localhost'', pg_port = None, pg_database = Some ''target'',
                      pg_user = None, pg_password = None\<rparr>"

definition example_config :: config where
  "example_config =
     \<lparr>databases = (\<lambda>alias. if alias = ''source'' then Some (PostgreSQL example_source)
                           else if alias = ''target'' then Some (PostgreSQL example_target)
                           else None),
      default_timezone = ''Europe/Berlin''\<rparr>"


section \<open>Properties\<close>

subsection \<open>Auxiliary facts\<close>

lemma and_then_Inr: "and_then (Inr v) f = f v"
  by (simp add: and_then_def)

lemma and_then_Inl: "and_then (Inl e) f = Inl e"
  by (simp add: and_then_def)

lemma pipe_Inr: "pipe (Inr a) (Inr b) = Inr (a @ '' '' @ BS # NL # ''  | '' @ b)"
  by (simp add: pipe_def and_then_Inr)

text \<open>On a descriptor, \<open>query_command\<close> and \<open>copy_to_stdout_command\<close> always return a string.\<close>

lemma query_command_total: "\<exists>s. query_command cfg (DB d) timezone echo_queries = Inr s"
  by (cases d) simp_all

lemma copy_to_stdout_command_total: "\<exists>s. copy_to_stdout_command cfg (DB d) = Inr s"
  by (cases d)
     (simp_all add: copy_to_stdout_command_PostgreSQLDB_def copy_to_stdout_command_MysqlDB_def
        copy_to_stdout_command_SQLServerDB_def copy_to_stdout_command_SQLiteDB_def and_then_Inr)

lemma copy_from_stdin_command_PostgreSQLDB_total:
  "\<exists>s. copy_from_stdin_command cfg (DB (PostgreSQL p)) target_table csv_format skip_header
       delimiter_char quote_char null_value_string timezone = Inr s"
  by (simp add: copy_from_stdin_command_PostgreSQLDB_def and_then_Inr Let_def)

text \<open>
  A string without the character \<open>c\<close> occurs in \<open>ys @ c # zs\<close> only inside \<open>ys\<close> or inside
  \<open>zs\<close>: it cannot lie across the \<open>c\<close>.
\<close>

lemma sublist_split_at:
  assumes "c \<notin> set xs"
  shows "sublist xs (ys @ c # zs) \<longleftrightarrow> sublist xs ys \<or> sublist xs zs"
proof
  assume "sublist xs (ys @ c # zs)"
  then consider "sublist xs ys" | "sublist xs (c # zs)"
    | xs1 xs2 where "xs = xs1 @ xs2" "suffix xs1 ys" "prefix xs2 (c # zs)"
    by (auto simp: sublist_append)
  then show "sublist xs ys \<or> sublist xs zs"
  proof cases
    case 1
    then show ?thesis by simp
  next
    case 2
    then have "prefix xs (c # zs) \<or> sublist xs zs"
      by (simp add: sublist_Cons_right)
    moreover have "prefix xs (c # zs) \<Longrightarrow> xs = []"
      using assms by (cases xs) auto
    ultimately show ?thesis by auto
  next
    case 3
    have "xs2 = []"
      using 3(1,3) assms by (cases xs2) auto
    with 3 show ?thesis by auto
  qed
next
  assume "sublist xs ys \<or> sublist xs zs"
  then show "sublist xs (ys @ c # zs)"
    by (auto simp: sublist_append sublist_Cons_right)
qed

text \<open>The decimal rendering of an integer holds no letter \<open>u\<close>, hence no \<^verbatim>\<open>--username\<close>.\<close>

lemma digit_char_not_u: "k < 10 \<Longrightarrow> digit_char k \<noteq> CHR ''u''"
proof
  assume k: "k < 10" and "digit_char k = CHR ''u''"
  then have "(of_char (char_of (48 + k)) :: nat) = of_char CHR ''u''"
    by (simp only: digit_char_def)
  then have "(48 + k) mod 256 = (117::nat)"
    by (simp only: of_char_of) simp
  with k show False by simp
qed

lemma u_notin_str_nat: "CHR ''u'' \<notin> set (str_nat n)"
proof (induction n rule: str_nat.induct)
  case (1 n)
  show ?case
  proof (cases "n < 10")
    case True
    have "str_nat n = [digit_char n]"
      using True by (subst str_nat.simps) simp
    with digit_char_not_u[OF True] show ?thesis by simp
  next
    case False
    have e: "str_nat n = str_nat (n div 10) @ [digit_char (n mod 10)]"
      using False by (subst str_nat.simps) simp
    have "digit_char (n mod 10) \<noteq> CHR ''u''"
      by (rule digit_char_not_u) simp
    with 1[OF False] show ?thesis by (simp add: e)
  qed
qed

lemma u_notin_str_int: "CHR ''u'' \<notin> set (str_int i)"
  using u_notin_str_nat by (simp add: str_int_def)

lemma username_not_in_number: "\<not> sublist ''--username'' (str_int i)"
proof
  assume "sublist ''--username'' (str_int i)"
  then have "set ''--username'' \<subseteq> set (str_int i)"
    by (rule set_mono_sublist)
  with u_notin_str_int[of i] show False by simp
qed

text \<open>
  In the psql command of a descriptor with host \<^verbatim>\<open>localhost\<close>, database \<^verbatim>\<open>test\<close> and neither
  user nor password, the text \<^verbatim>\<open>--username\<close> can only come from the timezone.
\<close>

lemma username_only_from_timezone:
  "sublist ''--username''
     (''PGTZ='' @ tz @ '' PGOPTIONS=--client-min-messages=warning psql --host=localhost''
        @ (case p of None \<Rightarrow> [] | Some i \<Rightarrow> if i = 0 then [] else '' --port='' @ str_int i)
        @ (if e then '' --echo-all'' else '' '')
        @ '' --no-psqlrc --set ON_ERROR_STOP=on test'')
   \<longleftrightarrow> sublist ''--username'' tz"
proof -
  let ?X = "''--username''"
  let ?A = "''PGOPTIONS=--client-min-messages=warning psql --host=localhost''"
  let ?P = "(case p of None \<Rightarrow> [] | Some i \<Rightarrow> if i = 0 then [] else '' --port='' @ str_int i)"
  let ?E = "(if e then ''--echo-all'' else [])"
  let ?T = "''--no-psqlrc --set ON_ERROR_STOP=on test''"
  have sp: "CHR '' '' \<notin> set ?X" and eq: "CHR ''='' \<notin> set ?X"
    by simp_all
  have cA: "\<not> sublist ?X ?A" by code_simp
  have cAP: "\<not> sublist ?X (?A @ '' --port'')" by code_simp
  have cZ: "\<not> sublist ?X ''PGTZ''" by code_simp
  have cT: "\<not> sublist ?X ?T" by code_simp
  have cE: "\<not> sublist ?X ?E"
  proof (cases e)
    case True
    have "\<not> sublist ?X ''--echo-all''" by code_simp
    with True show ?thesis by simp
  next
    case False
    have "\<not> sublist ?X []" by code_simp
    with False show ?thesis by simp
  qed
  have tail: "\<not> sublist ?X (?E @ CHR '' '' # ?T)"
    using cE cT by (simp only: sublist_split_at[OF sp]) simp
  have R: "\<not> sublist ?X (?A @ ?P @ CHR '' '' # ?E @ CHR '' '' # ?T)"
  proof (cases "?P = []")
    case True
    have "\<not> sublist ?X (?A @ CHR '' '' # (?E @ CHR '' '' # ?T))"
      using cA tail by (simp only: sublist_split_at[OF sp]) simp
    with True show ?thesis by simp
  next
    case False
    then obtain i where P: "?P = '' --port'' @ CHR ''='' # str_int i"
      by (cases p) (auto split: if_splits)
    have "\<not> sublist ?X ((?A @ '' --port'') @ CHR ''='' # (str_int i @ CHR '' '' # (?E @ CHR '' '' # ?T)))"
      using cAP tail username_not_in_number[of i]
      by (simp only: sublist_split_at[OF sp] sublist_split_at[OF eq]) simp
    then show ?thesis by (simp only: P) simp
  qed
  have main: "sublist ?X ((''PGTZ'' @ CHR ''='' # tz) @ CHR '' '' # (?A @ ?P @ CHR '' '' # ?E @ CHR '' '' # ?T))
          \<longleftrightarrow> sublist ?X tz"
    using cZ R by (simp only: sublist_split_at[OF sp] sublist_split_at[OF eq]) simp
  have str: "''PGTZ='' @ tz @ '' PGOPTIONS=--client-min-messages=warning psql --host=localhost''
        @ ?P @ (if e then '' --echo-all'' else '' '')
        @ '' --no-psqlrc --set ON_ERROR_STOP=on test''
     = (''PGTZ'' @ CHR ''='' # tz) @ CHR '' '' # (?A @ ?P @ CHR '' '' # ?E @ CHR '' '' # ?T)"
    by (cases e) simp_all
  show ?thesis
    by (simp only: str main)
qed

subsection \<open>query\_command\<close>

text \<open>
  C1. For the MySQL descriptor with host \<^verbatim>\<open>localhost\<close> and database \<^verbatim>\<open>test\<close> and nothing
  else, the docstring of \<open>query_command\<close> and the claim promise a command that contains
  \<^verbatim>\<open>--default-character-set=utf8mb4\<close> and \<^verbatim>\<open>--host=localhost\<close> and ends with \<^verbatim>\<open>test\<close>.
  The function returns \<^verbatim>\<open>mysql  --host=localhost test\<close> (with two spaces): the host flag and
  the database name are there, the character set flag is not.
\<close>

theorem query_command_mysql_no_charset:
  "query_command cfg
     (DB (Mysql \<lparr>my_host = Some ''localhost'', my_port = None, my_database = Some ''test'',
                 my_user = None, my_password = None, my_ssl = False\<rparr>))
     timezone echo_queries = Inr ''mysql  --host=localhost test''
   \<and> \<not> sublist ''--default-character-set=utf8mb4'' ''mysql  --host=localhost test''
   \<and> sublist ''--host=localhost'' ''mysql  --host=localhost test''
   \<and> suffix ''test'' ''mysql  --host=localhost test''"
proof (intro conjI)
  show "query_command cfg
     (DB (Mysql \<lparr>my_host = Some ''localhost'', my_port = None, my_database = Some ''test'',
                 my_user = None, my_password = None, my_ssl = False\<rparr>))
     timezone echo_queries = Inr ''mysql  --host=localhost test''"
    by (simp add: query_command_MysqlDB_def truthy_def truthy_int_def fmt_def)
  show "\<not> sublist ''--default-character-set=utf8mb4'' ''mysql  --host=localhost test''"
    by code_simp
  show "sublist ''--host=localhost'' ''mysql  --host=localhost test''"
    by code_simp
  show "suffix ''test'' ''mysql  --host=localhost test''"
    by code_simp
qed

text \<open>
  C8. For every SQLite descriptor the command of \<open>query_command\<close> has two stages. The first
  tests with \<^verbatim>\<open>test -f\<close> that the shell-escaped file exists, passes the input on with
  \<^verbatim>\<open>cat\<close> when it does and otherwise writes the escaped name and \<^verbatim>\<open>not found\<close> to standard
  error; the second pipes into \<^verbatim>\<open>sqlite3 -bail\<close> with the same escaped name. For the file
  name \<^verbatim>\<open>missing.db\<close>, which needs no quoting, and for \<^verbatim>\<open>my data.db\<close>, which is put in single
  quotes, the command is given in full.
\<close>

theorem query_command_sqlite_form:
  "query_command cfg (DB (SQLite db)) timezone echo_queries
     = Inr (''(test -f '' @ shlex_quote (file_name db) @ '' && cat || >&2 echo ''
            @ shlex_quote (file_name db) @ '' not found) '' @ BS # NL
            # ''  | sqlite3 -bail '' @ shlex_quote (file_name db))
   \<and> query_command cfg (DB (SQLite \<lparr>file_name = ''missing.db''\<rparr>)) timezone echo_queries
     = Inr (''(test -f missing.db && cat || >&2 echo missing.db not found) '' @ BS # NL
            # ''  | sqlite3 -bail missing.db'')
   \<and> query_command cfg (DB (SQLite \<lparr>file_name = ''my data.db''\<rparr>)) timezone echo_queries
     = Inr (''(test -f 'my data.db' && cat || >&2 echo 'my data.db' not found) '' @ BS # NL
            # ''  | sqlite3 -bail '' @ SQ # ''my data.db'' @ [SQ])"
  by (simp add: query_command_SQLiteDB_def Let_def shlex_quote_def safe_char_def replace_quote_def)

text \<open>
  C7, amended. For a PostgreSQL descriptor with host \<^verbatim>\<open>localhost\<close>, database \<^verbatim>\<open>test\<close> and
  neither user nor password (and any port), \<open>query_command\<close> returns the command written out
  below: it contains \<^verbatim>\<open>--host=localhost\<close>, ends with \<^verbatim>\<open>test\<close>, and contains \<^verbatim>\<open>--username\<close>
  exactly when the timezone text written after \<^verbatim>\<open>PGTZ=\<close> contains it (the timezone argument,
  or the default timezone when the argument is \<^verbatim>\<open>None\<close> or empty); so with a timezone free of
  \<^verbatim>\<open>--username\<close> the command is free of it. More generally, for each of the fields user, host,
  port and password of any PostgreSQL descriptor, the command is \<open>A @ flag @ B\<close> for two
  strings \<open>A\<close> and \<open>B\<close> that do not depend on the field, where \<open>flag\<close> is empty when the
  field is absent (\<^verbatim>\<open>None\<close>, the empty string, or port \<open>0\<close>) and the flag with the value
  otherwise: an absent field leaves no trace in the command.
\<close>

theorem query_command_postgresql_omits_absent:
  "(\<exists>s. query_command cfg
          (DB (PostgreSQL \<lparr>pg_host = Some ''localhost'', pg_port = port, pg_database = Some ''test'',
                           pg_user = None, pg_password = None\<rparr>))
          timezone echo_queries = Inr s
      \<and> s = ''PGTZ=''
            @ (case timezone of None \<Rightarrow> default_timezone cfg
               | Some z \<Rightarrow> if z = [] then default_timezone cfg else z)
            @ '' PGOPTIONS=--client-min-messages=warning psql --host=localhost''
            @ (case port of None \<Rightarrow> [] | Some i \<Rightarrow> if i = 0 then [] else '' --port='' @ str_int i)
            @ (if echo_queries then '' --echo-all'' else '' '')
            @ '' --no-psqlrc --set ON_ERROR_STOP=on test''
      \<and> sublist ''--host=localhost'' s
      \<and> suffix ''test'' s
      \<and> (sublist ''--username'' s
           \<longleftrightarrow> sublist ''--username''
                 (case timezone of None \<Rightarrow> default_timezone cfg
                  | Some z \<Rightarrow> if z = [] then default_timezone cfg else z)))
   \<and> (\<exists>A B. \<forall>u. query_command cfg (DB (PostgreSQL (db\<lparr>pg_user := u\<rparr>))) timezone echo_queries
          = Inr (A @ (case u of None \<Rightarrow> [] | Some v \<Rightarrow> if v = [] then [] else '' --username='' @ v)
                   @ B))
   \<and> (\<exists>A B. \<forall>h. query_command cfg (DB (PostgreSQL (db\<lparr>pg_host := h\<rparr>))) timezone echo_queries
          = Inr (A @ (case h of None \<Rightarrow> [] | Some v \<Rightarrow> if v = [] then [] else '' --host='' @ v)
                   @ B))
   \<and> (\<exists>A B. \<forall>p. query_command cfg (DB (PostgreSQL (db\<lparr>pg_port := p\<rparr>))) timezone echo_queries
          = Inr (A @ (case p of None \<Rightarrow> [] | Some i \<Rightarrow> if i = 0 then [] else '' --port='' @ str_int i)
                   @ B))
   \<and> (\<exists>A B. \<forall>w. query_command cfg (DB (PostgreSQL (db\<lparr>pg_password := w\<rparr>))) timezone echo_queries
          = Inr (A @ (case w of None \<Rightarrow> [] | Some v \<Rightarrow> if v = [] then [] else ''PGPASSWORD='' @ v @ '' '')
                   @ B))"
proof (intro conjI)
  let ?tz = "case timezone of None \<Rightarrow> default_timezone cfg
             | Some z \<Rightarrow> if z = [] then default_timezone cfg else z"
  let ?P = "case port of None \<Rightarrow> [] | Some i \<Rightarrow> if i = 0 then [] else '' --port='' @ str_int i"
  let ?s = "''PGTZ='' @ ?tz
            @ '' PGOPTIONS=--client-min-messages=warning psql --host=localhost''
            @ ?P @ (if echo_queries then '' --echo-all'' else '' '')
            @ '' --no-psqlrc --set ON_ERROR_STOP=on test''"
  have q: "query_command cfg
          (DB (PostgreSQL \<lparr>pg_host = Some ''localhost'', pg_port = port, pg_database = Some ''test'',
                           pg_user = None, pg_password = None\<rparr>))
          timezone echo_queries = Inr ?s"
    by (simp add: query_command_PostgreSQLDB_def truthy_def truthy_int_def fmt_def fmt_int_def
          split: option.split)
  have e1: "?s = (''PGTZ='' @ ?tz @ '' PGOPTIONS=--client-min-messages=warning psql '')
               @ ''--host=localhost''
               @ (?P @ (if echo_queries then '' --echo-all'' else '' '')
                    @ '' --no-psqlrc --set ON_ERROR_STOP=on test'')"
    by simp
  have h: "sublist ''--host=localhost'' ?s"
    by (subst e1) (rule sublist_appendI)
  have e2: "?s = (''PGTZ='' @ ?tz @ '' PGOPTIONS=--client-min-messages=warning psql --host=localhost''
               @ ?P @ (if echo_queries then '' --echo-all'' else '' '')
               @ '' --no-psqlrc --set ON_ERROR_STOP=on '') @ ''test''"
    by simp
  have t: "suffix ''test'' ?s"
    by (rule suffixI[OF e2])
  have u: "sublist ''--username'' ?s \<longleftrightarrow> sublist ''--username'' ?tz"
    by (rule username_only_from_timezone)
  show "\<exists>s. query_command cfg
          (DB (PostgreSQL \<lparr>pg_host = Some ''localhost'', pg_port = port, pg_database = Some ''test'',
                           pg_user = None, pg_password = None\<rparr>))
          timezone echo_queries = Inr s
      \<and> s = ?s \<and> sublist ''--host=localhost'' s \<and> suffix ''test'' s
      \<and> (sublist ''--username'' s \<longleftrightarrow> sublist ''--username'' ?tz)"
  proof (rule exI[of _ ?s], intro conjI)
    show "query_command cfg
          (DB (PostgreSQL \<lparr>pg_host = Some ''localhost'', pg_port = port, pg_database = Some ''test'',
                           pg_user = None, pg_password = None\<rparr>))
          timezone echo_queries = Inr ?s"
      by (rule q)
    show "?s = ?s"
      by (rule refl)
    show "sublist ''--host=localhost'' ?s"
      by (rule h)
    show "suffix ''test'' ?s"
      by (rule t)
    show "sublist ''--username'' ?s \<longleftrightarrow> sublist ''--username'' ?tz"
      by (rule u)
  qed
next
  define A where "A = ''PGTZ='' @ (if truthy timezone then fmt timezone else default_timezone cfg) @ '' ''
     @ (if truthy (pg_password db) then ''PGPASSWORD='' @ fmt (pg_password db) @ '' '' else [])
     @ ''PGOPTIONS=--client-min-messages=warning psql''"
  define B where "B = (if truthy (pg_host db) then '' --host='' @ fmt (pg_host db) else [])
     @ (if truthy_int (pg_port db) then '' --port='' @ fmt_int (pg_port db) else [])
     @ (if echo_queries then '' --echo-all'' else '' '')
     @ '' --no-psqlrc --set ON_ERROR_STOP=on ''
     @ (if truthy (pg_database db) then fmt (pg_database db) else [])"
  have "\<forall>u. query_command cfg (DB (PostgreSQL (db\<lparr>pg_user := u\<rparr>))) timezone echo_queries
          = Inr (A @ (case u of None \<Rightarrow> [] | Some v \<Rightarrow> if v = [] then [] else '' --username='' @ v)
                   @ B)"
    by (simp add: query_command_PostgreSQLDB_def A_def B_def truthy_def fmt_def split: option.split)
  then show "\<exists>A B. \<forall>u. query_command cfg (DB (PostgreSQL (db\<lparr>pg_user := u\<rparr>))) timezone echo_queries
          = Inr (A @ (case u of None \<Rightarrow> [] | Some v \<Rightarrow> if v = [] then [] else '' --username='' @ v)
                   @ B)"
    by blast
next
  define A where "A = ''PGTZ='' @ (if truthy timezone then fmt timezone else default_timezone cfg) @ '' ''
     @ (if truthy (pg_password db) then ''PGPASSWORD='' @ fmt (pg_password db) @ '' '' else [])
     @ ''PGOPTIONS=--client-min-messages=warning psql''
     @ (if truthy (pg_user db) then '' --username='' @ fmt (pg_user db) else [])"
  define B where "B = (if truthy_int (pg_port db) then '' --port='' @ fmt_int (pg_port db) else [])
     @ (if echo_queries then '' --echo-all'' else '' '')
     @ '' --no-psqlrc --set ON_ERROR_STOP=on ''
     @ (if truthy (pg_database db) then fmt (pg_database db) else [])"
  have "\<forall>h. query_command cfg (DB (PostgreSQL (db\<lparr>pg_host := h\<rparr>))) timezone echo_queries
          = Inr (A @ (case h of None \<Rightarrow> [] | Some v \<Rightarrow> if v = [] then [] else '' --host='' @ v)
                   @ B)"
    by (simp add: query_command_PostgreSQLDB_def A_def B_def truthy_def fmt_def split: option.split)
  then show "\<exists>A B. \<forall>h. query_command cfg (DB (PostgreSQL (db\<lparr>pg_host := h\<rparr>))) timezone echo_queries
          = Inr (A @ (case h of None \<Rightarrow> [] | Some v \<Rightarrow> if v = [] then [] else '' --host='' @ v)
                   @ B)"
    by blast
next
  define A where "A = ''PGTZ='' @ (if truthy timezone then fmt timezone else default_timezone cfg) @ '' ''
     @ (if truthy (pg_password db) then ''PGPASSWORD='' @ fmt (pg_password db) @ '' '' else [])
     @ ''PGOPTIONS=--client-min-messages=warning psql''
     @ (if truthy (pg_user db) then '' --username='' @ fmt (pg_user db) else [])
     @ (if truthy (pg_host db) then '' --host='' @ fmt (pg_host db) else [])"
  define B where "B = (if echo_queries then '' --echo-all'' else '' '')
     @ '' --no-psqlrc --set ON_ERROR_STOP=on ''
     @ (if truthy (pg_database db) then fmt (pg_database db) else [])"
  have "\<forall>p. query_command cfg (DB (PostgreSQL (db\<lparr>pg_port := p\<rparr>))) timezone echo_queries
          = Inr (A @ (case p of None \<Rightarrow> [] | Some i \<Rightarrow> if i = 0 then [] else '' --port='' @ str_int i)
                   @ B)"
    by (simp add: query_command_PostgreSQLDB_def A_def B_def truthy_int_def fmt_int_def
          split: option.split)
  then show "\<exists>A B. \<forall>p. query_command cfg (DB (PostgreSQL (db\<lparr>pg_port := p\<rparr>))) timezone echo_queries
          = Inr (A @ (case p of None \<Rightarrow> [] | Some i \<Rightarrow> if i = 0 then [] else '' --port='' @ str_int i)
                   @ B)"
    by blast
next
  define A where "A = ''PGTZ='' @ (if truthy timezone then fmt timezone else default_timezone cfg) @ '' ''"
  define B where "B = ''PGOPTIONS=--client-min-messages=warning psql''
     @ (if truthy (pg_user db) then '' --username='' @ fmt (pg_user db) else [])
     @ (if truthy (pg_host db) then '' --host='' @ fmt (pg_host db) else [])
     @ (if truthy_int (pg_port db) then '' --port='' @ fmt_int (pg_port db) else [])
     @ (if echo_queries then '' --echo-all'' else '' '')
     @ '' --no-psqlrc --set ON_ERROR_STOP=on ''
     @ (if truthy (pg_database db) then fmt (pg_database db) else [])"
  have "\<forall>w. query_command cfg (DB (PostgreSQL (db\<lparr>pg_password := w\<rparr>))) timezone echo_queries
          = Inr (A @ (case w of None \<Rightarrow> [] | Some v \<Rightarrow> if v = [] then [] else ''PGPASSWORD='' @ v @ '' '')
                   @ B)"
    by (simp add: query_command_PostgreSQLDB_def A_def B_def truthy_def fmt_def split: option.split)
  then show "\<exists>A B. \<forall>w. query_command cfg (DB (PostgreSQL (db\<lparr>pg_password := w\<rparr>))) timezone echo_queries
          = Inr (A @ (case w of None \<Rightarrow> [] | Some v \<Rightarrow> if v = [] then [] else ''PGPASSWORD='' @ v @ '' '')
                   @ B)"
    by blast
qed

text \<open>
  An instance: with no timezone argument and the default timezone \<^verbatim>\<open>Europe/Berlin\<close> of the
  example configuration, the command holds no \<^verbatim>\<open>--username\<close>.
\<close>

theorem query_command_postgresql_omits_absent_witness:
  "query_command example_config
     (DB (PostgreSQL \<lparr>pg_host = Some ''localhost'', pg_port = None, pg_database = Some ''test'',
                      pg_user = None, pg_password = None\<rparr>))
     None True
     = Inr ''PGTZ=Europe/Berlin PGOPTIONS=--client-min-messages=warning psql --host=localhost --echo-all --no-psqlrc --set ON_ERROR_STOP=on test''
   \<and> \<not> sublist ''--username''
         ''PGTZ=Europe/Berlin PGOPTIONS=--client-min-messages=warning psql --host=localhost --echo-all --no-psqlrc --set ON_ERROR_STOP=on test''"
proof -
  have tz: "\<not> sublist ''--username'' ''Europe/Berlin''"
    by code_simp
  have d: "default_timezone example_config = ''Europe/Berlin''"
    by (simp add: example_config_def)
  from query_command_postgresql_omits_absent [of example_config None None True, THEN conjunct1]
  obtain s where q: "query_command example_config
     (DB (PostgreSQL \<lparr>pg_host = Some ''localhost'', pg_port = None, pg_database = Some ''test'',
                      pg_user = None, pg_password = None\<rparr>))
     None True = Inr s"
    and e: "s = ''PGTZ=Europe/Berlin PGOPTIONS=--client-min-messages=warning psql --host=localhost --echo-all --no-psqlrc --set ON_ERROR_STOP=on test''"
    and u: "sublist ''--username'' s \<longleftrightarrow> sublist ''--username'' ''Europe/Berlin''"
    by (elim exE conjE) (simp add: d)
  from u tz have "\<not> sublist ''--username'' s"
    by simp
  with q e show ?thesis
    by (simp only: simp_thms)
qed

text \<open>
  Without the condition on the timezone the command can hold \<^verbatim>\<open>--username\<close>: the timezone
  argument \<^verbatim>\<open>UTC --username=x\<close> is written after \<^verbatim>\<open>PGTZ=\<close> as it is.
\<close>

theorem query_command_postgresql_username_counterexample:
  "query_command example_config
     (DB (PostgreSQL \<lparr>pg_host = Some ''localhost'', pg_port = None, pg_database = Some ''test'',
                      pg_user = None, pg_password = None\<rparr>))
     (Some ''UTC --username=x'') True
     = Inr ''PGTZ=UTC --username=x PGOPTIONS=--client-min-messages=warning psql --host=localhost --echo-all --no-psqlrc --set ON_ERROR_STOP=on test''
   \<and> sublist ''--username''
         ''PGTZ=UTC --username=x PGOPTIONS=--client-min-messages=warning psql --host=localhost --echo-all --no-psqlrc --set ON_ERROR_STOP=on test''"
proof (intro conjI)
  show "query_command example_config
     (DB (PostgreSQL \<lparr>pg_host = Some ''localhost'', pg_port = None, pg_database = Some ''test'',
                      pg_user = None, pg_password = None\<rparr>))
     (Some ''UTC --username=x'') True
     = Inr ''PGTZ=UTC --username=x PGOPTIONS=--client-min-messages=warning psql --host=localhost --echo-all --no-psqlrc --set ON_ERROR_STOP=on test''"
    by (simp add: query_command_PostgreSQLDB_def truthy_def truthy_int_def fmt_def)
  show "sublist ''--username''
         ''PGTZ=UTC --username=x PGOPTIONS=--client-min-messages=warning psql --host=localhost --echo-all --no-psqlrc --set ON_ERROR_STOP=on test''"
    by code_simp
qed

subsection \<open>copy\_from\_stdin\_command\<close>

text \<open>
  C3. For a PostgreSQL descriptor, \<open>copy_from_stdin_command\<close> returns the query command
  followed by \<^verbatim>\<open>--command="COPY <table> FROM STDIN WITH ..."\<close>, where the clauses come in
  the order CSV, HEADER, DELIMITER, NULL, QUOTE, the first two exactly when their flag is
  true and the other three exactly when their option is not \<^verbatim>\<open>None\<close>. With both flags true,
  delimiter \<^verbatim>\<open>,\<close>, null value string empty and quote character \<^verbatim>\<open>"\<close> the statement is
  \<^verbatim>\<open>COPY <table> FROM STDIN WITH CSV HEADER DELIMITER AS ',' NULL AS '' QUOTE AS '"'\<close>.
\<close>

theorem copy_from_stdin_clause_order:
  "(\<exists>q. query_command cfg (DB (PostgreSQL db)) timezone True = Inr q
     \<and> copy_from_stdin_command cfg (DB (PostgreSQL db)) target_table csv_format skip_header
           delimiter_char quote_char null_value_string timezone
         = Inr (q @ '' '' @ BS # NL # ''      --command='' @ DQ
                # ''COPY '' @ target_table @ '' FROM STDIN WITH''
                @ (if csv_format then '' CSV'' else [])
                @ (if skip_header then '' HEADER'' else [])
                @ (case delimiter_char of None \<Rightarrow> [] | Some d \<Rightarrow> '' DELIMITER AS '' @ SQ # d @ [SQ])
                @ (case null_value_string of None \<Rightarrow> [] | Some n \<Rightarrow> '' NULL AS '' @ SQ # n @ [SQ])
                @ (case quote_char of None \<Rightarrow> [] | Some c \<Rightarrow> '' QUOTE AS '' @ SQ # c @ [SQ])
                @ [DQ]))
   \<and> (\<exists>q. query_command cfg (DB (PostgreSQL db)) timezone True = Inr q
     \<and> copy_from_stdin_command cfg (DB (PostgreSQL db)) target_table True True
           (Some '','') (Some [DQ]) (Some []) timezone
         = Inr (q @ '' '' @ BS # NL # ''      --command='' @ DQ
                # ''COPY '' @ target_table
                @ '' FROM STDIN WITH CSV HEADER DELIMITER AS ',' NULL AS '' @ [SQ, SQ]
                @ '' QUOTE AS '' @ [SQ, DQ, SQ] @ [DQ]))"
  by (simp add: copy_from_stdin_command_PostgreSQLDB_def and_then_Inr Let_def fmt_def
        split: option.split)

text \<open>
  C10. For a PostgreSQL descriptor and every formatting option at its default (both flags
  false, delimiter, quote character and null value string \<^verbatim>\<open>None\<close>), the statement that
  \<open>copy_from_stdin_command\<close> embeds is \<^verbatim>\<open>COPY <table> FROM STDIN WITH\<close>, with nothing after
  the keyword \<^verbatim>\<open>WITH\<close> but the closing double quote of the \<^verbatim>\<open>--command\<close> argument.
\<close>

theorem copy_from_stdin_defaults_bare_with:
  "\<exists>q. query_command cfg (DB (PostgreSQL db)) timezone True = Inr q
     \<and> copy_from_stdin_command cfg (DB (PostgreSQL db)) target_table False False
           None None None timezone
         = Inr (q @ '' '' @ BS # NL # ''      --command='' @ DQ
                # ''COPY '' @ target_table @ '' FROM STDIN WITH'' @ [DQ])"
  by (simp add: copy_from_stdin_command_PostgreSQLDB_def and_then_Inr Let_def)

text \<open>
  C5. For every MySQL, SQLServer and SQLite descriptor, \<open>copy_from_stdin_command\<close> raises
  the error of its base function (the spec's UnsupportedDatabase, a \<^verbatim>\<open>NotImplementedError\<close>
  that names the class) and returns no string; for every PostgreSQL descriptor it returns a
  command.
\<close>

theorem copy_from_stdin_postgresql_only:
  "copy_from_stdin_command cfg (DB (Mysql m)) target_table csv_format skip_header
       delimiter_char quote_char null_value_string timezone
     = Inl (NotImplementedError
         (''Please implement copy_from_stdin_command for type '' @ DQ # ''MysqlDB'' @ [DQ]))
   \<and> copy_from_stdin_command cfg (DB (SQLServer s)) target_table csv_format skip_header
       delimiter_char quote_char null_value_string timezone
     = Inl (NotImplementedError
         (''Please implement copy_from_stdin_command for type '' @ DQ # ''SQLServerDB'' @ [DQ]))
   \<and> copy_from_stdin_command cfg (DB (SQLite l)) target_table csv_format skip_header
       delimiter_char quote_char null_value_string timezone
     = Inl (NotImplementedError
         (''Please implement copy_from_stdin_command for type '' @ DQ # ''SQLiteDB'' @ [DQ]))
   \<and> (\<exists>c. copy_from_stdin_command cfg (DB (PostgreSQL p)) target_table csv_format skip_header
       delimiter_char quote_char null_value_string timezone = Inr c)"
  by (simp add: copy_from_stdin_command_PostgreSQLDB_def and_then_Inr Let_def)

subsection \<open>copy\_command\<close>

text \<open>
  C4. For every SQLServer source and PostgreSQL target, \<open>copy_command\<close> returns the command
  of \<open>copy_to_stdout_command\<close> for the source, a continuation line with a pipe, and the
  command of \<open>copy_from_stdin_command\<close> for the target with \<open>csv_format\<close> and \<open>skip_header\<close>
  true, no delimiter, quote character or null value string, and the timezone passed on. Both
  parts are returned, and the second ends with the statement
  \<^verbatim>\<open>COPY <table> FROM STDIN WITH CSV HEADER\<close>, whatever the table and the timezone are.
\<close>

theorem copy_command_sqlserver_postgresql:
  "\<exists>a b. copy_to_stdout_command cfg (DB (SQLServer source_db)) = Inr a
     \<and> copy_from_stdin_command cfg (DB (PostgreSQL target_db)) target_table True True
           None None None timezone = Inr b
     \<and> copy_command cfg (DB (SQLServer source_db)) (DB (PostgreSQL target_db)) target_table timezone
         = Inr (a @ '' '' @ BS # NL # ''  | '' @ b)
     \<and> suffix (''--command='' @ DQ # ''COPY '' @ target_table
                 @ '' FROM STDIN WITH CSV HEADER'' @ [DQ]) b"
proof -
  obtain a where a: "copy_to_stdout_command cfg (DB (SQLServer source_db)) = Inr a"
    using copy_to_stdout_command_total by blast
  define q where "q = query_command_PostgreSQLDB cfg target_db timezone True"
  define b where "b = q @ '' '' @ BS # NL # ''      --command='' @ DQ # ''COPY '' @ target_table
                        @ '' FROM STDIN WITH CSV HEADER'' @ [DQ]"
  have b: "copy_from_stdin_command cfg (DB (PostgreSQL target_db)) target_table True True
           None None None timezone = Inr b"
    by (simp add: copy_from_stdin_command_PostgreSQLDB_def and_then_Inr Let_def b_def q_def)
  have c: "copy_command cfg (DB (SQLServer source_db)) (DB (PostgreSQL target_db))
             target_table timezone = Inr (a @ '' '' @ BS # NL # ''  | '' @ b)"
    using a b by (simp add: pipe_Inr)
  have "b = (q @ '' '' @ BS # NL # ''      '')
              @ (''--command='' @ DQ # ''COPY '' @ target_table
                   @ '' FROM STDIN WITH CSV HEADER'' @ [DQ])"
    by (simp add: b_def)
  then have d: "suffix (''--command='' @ DQ # ''COPY '' @ target_table
                          @ '' FROM STDIN WITH CSV HEADER'' @ [DQ]) b"
    by (metis suffixI)
  from a b c d show ?thesis by blast
qed

text \<open>
  C6. On two descriptors, \<open>copy_command\<close> returns a command exactly when the target is a
  PostgreSQL descriptor, for each of the four source variants. For a MySQL, SQLServer or
  SQLite target it raises the error of its base function (the spec's UnsupportedPair, a
  \<^verbatim>\<open>NotImplementedError\<close> that names both classes) and no string is returned; the pair
  (SQLite, MySQL) is one of them.
\<close>

theorem copy_command_registered_pairs:
  "(\<exists>c. copy_command cfg (DB S) (DB (PostgreSQL p)) target_table timezone = Inr c)
   \<and> copy_command cfg (DB S) (DB (Mysql m)) target_table timezone
       = Inl (NotImplementedError
           (''Please implement copy_command for types '' @ DQ # class_name (DB S)
              @ DQ # '' and '' @ DQ # ''MysqlDB'' @ [DQ]))
   \<and> copy_command cfg (DB S) (DB (SQLServer s)) target_table timezone
       = Inl (NotImplementedError
           (''Please implement copy_command for types '' @ DQ # class_name (DB S)
              @ DQ # '' and '' @ DQ # ''SQLServerDB'' @ [DQ]))
   \<and> copy_command cfg (DB S) (DB (SQLite l)) target_table timezone
       = Inl (NotImplementedError
           (''Please implement copy_command for types '' @ DQ # class_name (DB S)
              @ DQ # '' and '' @ DQ # ''SQLiteDB'' @ [DQ]))
   \<and> copy_command cfg (DB (SQLite l)) (DB (Mysql m)) target_table timezone
       = Inl (NotImplementedError
           (''Please implement copy_command for types '' @ DQ # ''SQLiteDB''
              @ DQ # '' and '' @ DQ # ''MysqlDB'' @ [DQ]))"
proof (intro conjI)
  show "\<exists>c. copy_command cfg (DB S) (DB (PostgreSQL p)) target_table timezone = Inr c"
  proof -
    obtain a where a: "copy_to_stdout_command cfg (DB S) = Inr a"
      using copy_to_stdout_command_total by blast
    have b: "\<And>csv hdr d q n. \<exists>b. copy_from_stdin_command cfg (DB (PostgreSQL p)) target_table
                                  csv hdr d q n timezone = Inr b"
      using copy_from_stdin_command_PostgreSQLDB_total by blast
    show ?thesis
    proof (cases S)
      case (PostgreSQL x)
      obtain b where "copy_from_stdin_command cfg (DB (PostgreSQL p)) target_table False False
                        None None (Some []) timezone = Inr b"
        using b by blast
      with a PostgreSQL show ?thesis by (simp add: pipe_Inr)
    next
      case (Mysql x)
      obtain b where "copy_from_stdin_command cfg (DB (PostgreSQL p)) target_table False False
                        None None (Some ''NULL'') timezone = Inr b"
        using b by blast
      with a Mysql show ?thesis by (simp add: pipe_Inr)
    next
      case (SQLServer x)
      obtain b where "copy_from_stdin_command cfg (DB (PostgreSQL p)) target_table True True
                        None None None timezone = Inr b"
        using b by blast
      with a SQLServer show ?thesis by (simp add: pipe_Inr)
    next
      case (SQLite x)
      obtain b where "copy_from_stdin_command cfg (DB (PostgreSQL p)) target_table True False
                        None (Some [SQ, SQ]) (Some ''NULL'') timezone = Inr b"
        using b by blast
      with a SQLite show ?thesis by (simp add: pipe_Inr)
    qed
  qed
qed (cases S; simp)+

text \<open>
  Aliases in \<open>copy_command\<close>: an alias as the target, and aliases as both arguments, are
  resolved before the dispatch on the descriptors.
\<close>

lemma copy_command_target_alias:
  "dbs_db cfg target_db_alias = Inr target_db \<Longrightarrow>
   copy_command cfg (DB source_db) (Str target_db_alias) target_table timezone
     = copy_command cfg (DB source_db) (DB target_db) target_table timezone"
  by (simp add: and_then_Inr)

lemma copy_command_both_aliases:
  "dbs_db cfg source_db_alias = Inr source_db \<Longrightarrow> dbs_db cfg target_db_alias = Inr target_db \<Longrightarrow>
   copy_command cfg (Str source_db_alias) (Str target_db_alias) target_table timezone
     = copy_command cfg (DB source_db) (DB target_db) target_table timezone"
  by (simp add: and_then_Inr)

text \<open>
  C2. The docstring of \<open>copy_command\<close> and the claim let either argument be an alias, with
  the result of the call on the resolved descriptors. For an alias as the source together
  with a descriptor as the target no function is registered, so the call goes to the base
  function and raises, for every alias, registry and target descriptor; in the example
  configuration the alias \<^verbatim>\<open>source\<close> resolves, the call on the resolved descriptors returns a
  command, and the call on the alias raises.
\<close>

theorem copy_command_source_alias_unregistered:
  "copy_command cfg (Str source_db_alias) (DB target_db) target_table timezone
     = Inl (NotImplementedError
         (''Please implement copy_command for types '' @ DQ # ''str''
            @ DQ # '' and '' @ DQ # class_name (DB target_db) @ [DQ]))
   \<and> dbs_db example_config ''source'' = Inr (PostgreSQL example_source)
   \<and> (\<exists>c. copy_command example_config (DB (PostgreSQL example_source))
              (DB (PostgreSQL example_target)) ''tbl'' None = Inr c)
   \<and> copy_command example_config (Str ''source'') (DB (PostgreSQL example_target)) ''tbl'' None
       = Inl (NotImplementedError
           (''Please implement copy_command for types '' @ DQ # ''str''
              @ DQ # '' and '' @ DQ # ''PostgreSQLDB'' @ [DQ]))"
proof (intro conjI)
  show "copy_command cfg (Str source_db_alias) (DB target_db) target_table timezone
     = Inl (NotImplementedError
         (''Please implement copy_command for types '' @ DQ # ''str''
            @ DQ # '' and '' @ DQ # class_name (DB target_db) @ [DQ]))"
    by simp
  show "dbs_db example_config ''source'' = Inr (PostgreSQL example_source)"
    by (simp add: dbs_db_def example_config_def)
  show "\<exists>c. copy_command example_config (DB (PostgreSQL example_source))
              (DB (PostgreSQL example_target)) ''tbl'' None = Inr c"
    by (simp add: pipe_def and_then_Inr copy_to_stdout_command_PostgreSQLDB_def
          copy_from_stdin_command_PostgreSQLDB_def Let_def)
  show "copy_command example_config (Str ''source'') (DB (PostgreSQL example_target)) ''tbl'' None
       = Inl (NotImplementedError
           (''Please implement copy_command for types '' @ DQ # ''str''
              @ DQ # '' and '' @ DQ # ''PostgreSQLDB'' @ [DQ]))"
    by simp
qed

end
